theory Spec2Isabelle
  imports Complex_Main
begin

section \<open>The rate dashboard notebook (dashboards/voila/crypto.ipynb)\<close>

text \<open>
  The notebook defines a ticker list \<open>COIN_LIST\<close>, a dictionary \<open>exchange_rates\<close>, a
  function \<open>get_exchange_rate\<close> that asks the SDK for a price history and derives a display
  price and a colour name, and a button callback \<open>show_rates\<close> that rebuilds the children of
  a grid widget. The SDK loader, Python's \<open>str\<close> on a close value and the card renderer are
  not part of the notebook; they are the fields of an environment record.

  The card renderer is reached through the global name \<open>api\<close>. Python resolves a global
  name when the expression is evaluated, in the namespace of the running kernel, so the
  binding of \<open>api\<close> is part of the environment too. No cell of the notebook binds or
  imports that name (the import cell brings in \<open>openbb\<close> and \<open>widgets\<close>): the notebook
  as it is corresponds to the environments whose \<open>api\<close> field is \<open>None\<close>.
\<close>

subsection \<open>Python values\<close>

text \<open>
  Exceptions as values. \<open>KeyboardInterrupt\<close> and \<open>SystemExit\<close> derive from
  \<open>BaseException\<close> only, so a clause \<open>except Exception\<close> does not catch them.
\<close>

datatype py_exc =
    NameError string
  | KeyError string
  | IndexError
  | OtherException string
  | KeyboardInterrupt
  | SystemExit

fun is_Exception :: "py_exc \<Rightarrow> bool" where
  "is_Exception KeyboardInterrupt = False"
| "is_Exception SystemExit = False"
| "is_Exception (NameError n) = True"
| "is_Exception (KeyError k) = True"
| "is_Exception IndexError = True"
| "is_Exception (OtherException c) = True"

text \<open>
  A close is a floating-point number; only its order is used. Finite values are compared as
  the reals they denote, and every comparison with a not-a-number is false.
\<close>

datatype close = Num real | NaN

fun py_gt :: "close \<Rightarrow> close \<Rightarrow> bool" where
  "py_gt (Num a) (Num b) = (b < a)"
| "py_gt NaN y = False"
| "py_gt (Num a) NaN = False"

fun py_lt :: "close \<Rightarrow> close \<Rightarrow> bool" where
  "py_lt (Num a) (Num b) = (a < b)"
| "py_lt NaN y = False"
| "py_lt (Num a) NaN = False"

text \<open>A data frame: column name to the column's values, oldest row first.\<close>

type_synonym dataframe = "string \<rightharpoonup> close list"

definition getitem :: "dataframe \<Rightarrow> string \<Rightarrow> py_exc + close list" where
  \<comment> \<open>\<open>df[name]\<close>: a missing column raises \<open>KeyError\<close>.\<close>
  "getitem df name = (case df name of None \<Rightarrow> Inl (KeyError name) | Some col \<Rightarrow> Inr col)"

definition iloc :: "close list \<Rightarrow> nat \<Rightarrow> py_exc + close" where
  \<comment> \<open>\<open>col.iloc[-k]\<close> for \<open>k \<ge> 1\<close>: the k-th value from the end, \<open>IndexError\<close> when the
      column has fewer than k rows.\<close>
  "iloc col k = (if 1 \<le> k \<and> k \<le> length col then Inr (col ! (length col - k)) else Inl IndexError)"

definition close_from_end :: "dataframe \<Rightarrow> nat \<Rightarrow> py_exc + close" where
  \<comment> \<open>\<open>current_df["Close"].iloc[-k]\<close>\<close>
  "close_from_end df k = (case getitem df ''Close'' of Inl e \<Rightarrow> Inl e | Inr col \<Rightarrow> iloc col k)"

subsection \<open>The environment and the notebook's state\<close>

record load_call =
  symbol :: string
  interval :: string
  source :: string

record env =
  load :: "load_call \<Rightarrow> py_exc + dataframe"
    \<comment> \<open>\<open>openbb.crypto.load\<close> during one click: raises or returns a frame (a result that
        cannot be subscripted raises at \<open>current_df["Close"]\<close> and counts as raising)\<close>
  py_str :: "close \<Rightarrow> string"
    \<comment> \<open>Python's \<open>str\<close> on a close\<close>
  api :: "(string \<Rightarrow> string \<Rightarrow> string \<Rightarrow> py_exc + string) option"
    \<comment> \<open>the binding of the global name \<open>api\<close>: \<open>None\<close> when the name is unbound, otherwise
        its \<open>widgets.price_card\<close> (ticker, price, price colour to markup, or an exception)\<close>

record rate_entry =
  price :: "string option"
  color :: "string option"

datatype widget = HTML string

text \<open>
  The state holds the two mutable globals, and two histories that only record what was
  done: the calls made to the loader and the values assigned to \<open>grid.children\<close>.
\<close>

record notebook =
  exchange_rates :: "string \<rightharpoonup> rate_entry"
  grid_children :: "widget list"
  load_calls :: "load_call list"
  grid_assignments :: "widget list list"

datatype outcome = Returned | Raised py_exc

subsection \<open>The ticker list\<close>

fun split :: "char \<Rightarrow> string \<Rightarrow> string list" where
  \<comment> \<open>\<open>s.split(sep)\<close> for a one-character separator\<close>
  "split sep [] = [[]]"
| "split sep (c # cs) =
     (if c = sep then [] # split sep cs
      else (case split sep cs of [] \<Rightarrow> [[c]] | w # ws \<Rightarrow> (c # w) # ws))"

definition COIN_LIST :: "string list" where
  "COIN_LIST = split (CHR '','')
     (''BTC,ETH,USDT,BNB,USDC,XRP,LUNA,ADA,''
      @ ''SOL,AVAX,DOT,BUSD,DOGE,UST,SHIB,WBTC,''
      @ ''MATIC,CRO,DAI,LTC,ATOM,NEAR,LINK,BCH,''
      @ ''UNI,TRX,FTT,ETC,LEO,ALGO,XLM,MANA,''
      @ ''BTCB,HBAR,EGLD,ICP,SAND,XMR,WAVES,VET,''
      @ ''APE,FIL,FTM,AXS,THETA,KLAY,XTZ,RUNE'')"

subsection \<open>get\_exchange\_rate\<close>

definition crypto_load :: "env \<Rightarrow> load_call \<Rightarrow> notebook \<Rightarrow> (py_exc + dataframe) \<times> notebook" where
  \<comment> \<open>one call of the loader, recorded in the call history\<close>
  "crypto_load E call st = (load E call, st\<lparr>load_calls := load_calls st @ [call]\<rparr>)"

definition compare_last_two :: "(close \<Rightarrow> close \<Rightarrow> bool) \<Rightarrow> dataframe \<Rightarrow> py_exc + bool" where
  \<comment> \<open>\<open>current_df["Close"].iloc[-1] <op> current_df["Close"].iloc[-2]\<close>, left operand first\<close>
  "compare_last_two cmp df =
     (case close_from_end df 1 of Inl e \<Rightarrow> Inl e
      | Inr latest \<Rightarrow>
          (case close_from_end df 2 of Inl e \<Rightarrow> Inl e
           | Inr prior \<Rightarrow> Inr (cmp latest prior)))"

definition price_text :: "env \<Rightarrow> dataframe \<Rightarrow> py_exc + string" where
  \<comment> \<open>\<open>str(current_df["Close"].iloc[-1])[:7]\<close>\<close>
  "price_text E df =
     (case close_from_end df 1 of Inl e \<Rightarrow> Inl e | Inr latest \<Rightarrow> Inr (take 7 (py_str E latest)))"

definition rate_of_frame :: "env \<Rightarrow> dataframe \<Rightarrow> py_exc + (string \<times> string)" where
  \<comment> \<open>the body of \<open>get_exchange_rate\<close> after the load\<close>
  "rate_of_frame E df =
     (case compare_last_two py_gt df of Inl e \<Rightarrow> Inl e
      | Inr up \<Rightarrow>
          (if up then
             (case price_text E df of Inl e \<Rightarrow> Inl e | Inr p \<Rightarrow> Inr (p, ''up_color''))
           else
             (case compare_last_two py_lt df of Inl e \<Rightarrow> Inl e
              | Inr down \<Rightarrow>
                  (case price_text E df of Inl e \<Rightarrow> Inl e
                   | Inr p \<Rightarrow> Inr (p, if down then ''down_color'' else ''neutral_color'')))))"

definition get_exchange_rate ::
  "env \<Rightarrow> string \<Rightarrow> int \<Rightarrow> notebook \<Rightarrow> (py_exc + (string \<times> string)) \<times> notebook" where
  \<comment> \<open>\<open>get_exchange_rate(coin, days)\<close>; the source never reads \<open>days\<close>\<close>
  "get_exchange_rate E coin days st =
     (case crypto_load E \<lparr>symbol = coin, interval = ''1440'', source = ''CCXT''\<rparr> st of
        (Inl e, st') \<Rightarrow> (Inl e, st')
      | (Inr current_df, st') \<Rightarrow> (rate_of_frame E current_df, st'))"

subsection \<open>show\_rates\<close>

definition set_children :: "widget list \<Rightarrow> notebook \<Rightarrow> notebook" where
  \<comment> \<open>\<open>grid.children = ws\<close>, recorded in the assignment history\<close>
  "set_children ws st =
     st\<lparr>grid_children := ws, grid_assignments := grid_assignments st @ [ws]\<rparr>"

definition ensure_entry :: "string \<Rightarrow> notebook \<Rightarrow> notebook" where
  \<comment> \<open>\<open>if coin not in exchange_rates.keys(): exchange_rates[coin] = {"price": None, "color": None}\<close>\<close>
  "ensure_entry coin st =
     (if exchange_rates st coin = None
      then st\<lparr>exchange_rates := (exchange_rates st)(coin \<mapsto> \<lparr>price = None, color = None\<rparr>)\<rparr>
      else st)"

definition try_get_exchange_rate ::
  "env \<Rightarrow> string \<Rightarrow> notebook \<Rightarrow> (py_exc + (string \<times> string)) \<times> notebook" where
  \<comment> \<open>the \<open>try\<close> statement: \<open>except Exception\<close> replaces the result by the placeholder pair;
      an exception outside \<open>Exception\<close> passes through\<close>
  "try_get_exchange_rate E coin st =
     (case get_exchange_rate E coin 2 st of
        (Inr pc, st') \<Rightarrow> (Inr pc, st')
      | (Inl e, st') \<Rightarrow>
          (if is_Exception e then (Inr (''-------'', ''neutral_color''), st') else (Inl e, st')))"

definition price_card_widget :: "env \<Rightarrow> string \<Rightarrow> string \<Rightarrow> string \<Rightarrow> py_exc + widget" where
  \<comment> \<open>\<open>ipw.HTML(api.widgets.price_card(ticker=.., price=.., price_color=..))\<close>: the name
      \<open>api\<close> is looked up first\<close>
  "price_card_widget E ticker p c =
     (case api E of
        None \<Rightarrow> Inl (NameError ''api'')
      | Some price_card \<Rightarrow>
          (case price_card ticker p c of Inl e \<Rightarrow> Inl e | Inr markup \<Rightarrow> Inr (HTML markup)))"

definition show_rates_body :: "env \<Rightarrow> string \<Rightarrow> notebook \<Rightarrow> outcome \<times> notebook" where
  \<comment> \<open>one iteration of the \<open>for\<close> loop\<close>
  "show_rates_body E coin st =
     (case try_get_exchange_rate E coin (ensure_entry coin st) of
        (Inl e, st') \<Rightarrow> (Raised e, st')
      | (Inr (p, c), st') \<Rightarrow>
          (let widgets = grid_children st' in
           case price_card_widget E coin p c of
             Inl e \<Rightarrow> (Raised e, st')
           | Inr w \<Rightarrow> (Returned, set_children (widgets @ [w]) st')))"

fun for_coins :: "env \<Rightarrow> string list \<Rightarrow> notebook \<Rightarrow> outcome \<times> notebook" where
  \<comment> \<open>the \<open>for\<close> loop; an exception ends it\<close>
  "for_coins E [] st = (Returned, st)"
| "for_coins E (coin # rest) st =
     (case show_rates_body E coin st of
        (Returned, st') \<Rightarrow> for_coins E rest st'
      | (Raised e, st') \<Rightarrow> (Raised e, st'))"

definition show_rates :: "env \<Rightarrow> notebook \<Rightarrow> outcome \<times> notebook" where
  \<comment> \<open>\<open>show_rates(btn)\<close>; the button argument is not read\<close>
  "show_rates E st = for_coins E COIN_LIST (set_children [] st)"

text \<open>A session: one environment per click of the button, whatever each click's outcome.\<close>

fun clicks :: "env list \<Rightarrow> notebook \<Rightarrow> notebook" where
  "clicks [] st = st"
| "clicks (E # Es) st = clicks Es (snd (show_rates E st))"

subsection \<open>The loop without the state\<close>

text \<open>
  What a symbol's iteration computes depends on the environment and the symbol only, not
  on the state. The functions below restate the definitions above without the state; the
  lemmas \<open>get_exchange_rate_eq\<close>, \<open>show_rates_body_eq\<close> and \<open>for_coins_*\<close> prove
  that they describe the loop.
\<close>

definition daily_call :: "string \<Rightarrow> load_call" where
  \<comment> \<open>the keyword arguments of the one call in \<open>get_exchange_rate\<close>\<close>
  "daily_call coin = \<lparr>symbol = coin, interval = ''1440'', source = ''CCXT''\<rparr>"

definition exchange_rate_of :: "env \<Rightarrow> string \<Rightarrow> py_exc + (string \<times> string)" where
  \<comment> \<open>what \<open>get_exchange_rate(coin)\<close> returns or raises\<close>
  "exchange_rate_of E coin =
     (case load E (daily_call coin) of Inl e \<Rightarrow> Inl e | Inr df \<Rightarrow> rate_of_frame E df)"

definition card_for :: "env \<Rightarrow> string \<Rightarrow> py_exc + widget" where
  \<comment> \<open>the \<open>try\<close> statement followed by the card construction\<close>
  "card_for E coin =
     (case exchange_rate_of E coin of
        Inr (p, c) \<Rightarrow> price_card_widget E coin p c
      | Inl e \<Rightarrow>
          (if is_Exception e then price_card_widget E coin ''-------'' ''neutral_color''
           else Inl e))"

definition after_fetch :: "string \<Rightarrow> notebook \<Rightarrow> notebook" where
  \<comment> \<open>the state once the membership test and the fetch of an iteration are done\<close>
  "after_fetch coin st =
     (ensure_entry coin st)\<lparr>load_calls := load_calls st @ [daily_call coin]\<rparr>"

fun built_cards :: "env \<Rightarrow> string list \<Rightarrow> widget list" where
  \<comment> \<open>the cards appended before the loop ends\<close>
  "built_cards E [] = []"
| "built_cards E (coin # rest) =
     (case card_for E coin of Inl e \<Rightarrow> [] | Inr w \<Rightarrow> w # built_cards E rest)"

fun loop_outcome :: "env \<Rightarrow> string list \<Rightarrow> outcome" where
  \<comment> \<open>how the loop ends: the first exception that leaves an iteration, if any\<close>
  "loop_outcome E [] = Returned"
| "loop_outcome E (coin # rest) =
     (case card_for E coin of Inl e \<Rightarrow> Raised e | Inr w \<Rightarrow> loop_outcome E rest)"

fun attempted :: "env \<Rightarrow> string list \<Rightarrow> string list" where
  \<comment> \<open>the symbols whose iteration started\<close>
  "attempted E [] = []"
| "attempted E (coin # rest) =
     coin # (case card_for E coin of Inl e \<Rightarrow> [] | Inr w \<Rightarrow> attempted E rest)"

subsection \<open>Concrete environments\<close>

text \<open>
  A loader with a rising pair for BTC, a network failure for ETH, a one-row frame for USDT,
  a rising pair with a long price for BNB, a flat pair for XRP, a falling pair with a long
  price for LUNA and a falling pair for every other symbol; a \<open>str\<close> that agrees
  with Python on the closes used; a renderer that joins its three arguments.
\<close>

definition closes_frame :: "real list \<Rightarrow> dataframe" where
  "closes_frame xs = [''Close'' \<mapsto> map Num xs]"

definition demo_load :: "load_call \<Rightarrow> py_exc + dataframe" where
  "demo_load call =
     (if symbol call = ''BTC'' then Inr (closes_frame [10, 12])
      else if symbol call = ''ETH'' then Inl (OtherException ''ConnectionError'')
      else if symbol call = ''USDT'' then Inr (closes_frame [1])
      else if symbol call = ''BNB'' then Inr (closes_frame [9, 12345.6789])
      else if symbol call = ''XRP'' then Inr (closes_frame [10, 10])
      else if symbol call = ''LUNA'' then Inr (closes_frame [20000, 12345.6789])
      else Inr (closes_frame [12, 10]))"

fun demo_str :: "close \<Rightarrow> string" where
  "demo_str NaN = ''nan''"
| "demo_str (Num r) =
     (if r = 12 then ''12.0'' else if r = 10 then ''10.0''
      else if r = 12345.6789 then ''12345.6789'' else ''1.0'')"

definition demo_price_card :: "string \<Rightarrow> string \<Rightarrow> string \<Rightarrow> py_exc + string" where
  "demo_price_card ticker p c = Inr (ticker @ '' '' @ p @ '' '' @ c)"

definition bound_env :: env where
  \<comment> \<open>a kernel in which the name \<open>api\<close> is bound\<close>
  "bound_env = \<lparr>load = demo_load, py_str = demo_str, api = Some demo_price_card\<rparr>"

definition notebook_env :: env where
  \<comment> \<open>the notebook as it is: no cell binds or imports \<open>api\<close>\<close>
  "notebook_env = \<lparr>load = demo_load, py_str = demo_str, api = None\<rparr>"

definition offline_env :: env where
  \<comment> \<open>the notebook as it is, with every fetch failing\<close>
  "offline_env =
     \<lparr>load = (\<lambda>call. Inl (OtherException ''ConnectionError'')), py_str = demo_str, api = None\<rparr>"

definition flaky_price_card :: "string \<Rightarrow> string \<Rightarrow> string \<Rightarrow> py_exc + string" where
  \<comment> \<open>a renderer that raises for one ticker\<close>
  "flaky_price_card ticker p c =
     (if ticker = ''USDT'' then Inl (OtherException ''ValueError'') else demo_price_card ticker p c)"

definition flaky_env :: env where
  "flaky_env = \<lparr>load = demo_load, py_str = demo_str, api = Some flaky_price_card\<rparr>"

definition fresh_notebook :: notebook where
  \<comment> \<open>the state after the notebook's cells have run, before the first click\<close>
  "fresh_notebook =
     \<lparr>exchange_rates = Map.empty, grid_children = [], load_calls = [], grid_assignments = []\<rparr>"

definition stale_notebook :: notebook where
  \<comment> \<open>a state whose dictionary already holds an entry\<close>
  "stale_notebook =
     fresh_notebook\<lparr>exchange_rates :=
       [''OLD'' \<mapsto> \<lparr>price = Some ''1.0'', color = Some ''up_color''\<rparr>]\<rparr>"

section \<open>Properties\<close>

subsection \<open>The ticker list\<close>

lemma COIN_LIST_eq: "COIN_LIST =
  [''BTC'', ''ETH'', ''USDT'', ''BNB'', ''USDC'', ''XRP'', ''LUNA'', ''ADA'',
   ''SOL'', ''AVAX'', ''DOT'', ''BUSD'', ''DOGE'', ''UST'', ''SHIB'', ''WBTC'',
   ''MATIC'', ''CRO'', ''DAI'', ''LTC'', ''ATOM'', ''NEAR'', ''LINK'', ''BCH'',
   ''UNI'', ''TRX'', ''FTT'', ''ETC'', ''LEO'', ''ALGO'', ''XLM'', ''MANA'',
   ''BTCB'', ''HBAR'', ''EGLD'', ''ICP'', ''SAND'', ''XMR'', ''WAVES'', ''VET'',
   ''APE'', ''FIL'', ''FTM'', ''AXS'', ''THETA'', ''KLAY'', ''XTZ'', ''RUNE'']"
  by (simp add: COIN_LIST_def)

lemma length_COIN_LIST: "length COIN_LIST = 48"
  by (simp add: COIN_LIST_eq)

lemma distinct_COIN_LIST: "distinct COIN_LIST"
  by (simp add: COIN_LIST_eq)

subsection \<open>The loop, characterised\<close>

lemma get_exchange_rate_eq:
  "get_exchange_rate E coin days st =
     (exchange_rate_of E coin, st\<lparr>load_calls := load_calls st @ [daily_call coin]\<rparr>)"
  by (simp add: get_exchange_rate_def crypto_load_def exchange_rate_of_def daily_call_def
      split: sum.splits)

lemma show_rates_body_eq:
  "show_rates_body E coin st =
     (case card_for E coin of
        Inl e \<Rightarrow> (Raised e, after_fetch coin st)
      | Inr w \<Rightarrow> (Returned, set_children (grid_children st @ [w]) (after_fetch coin st)))"
  by (simp add: show_rates_body_def try_get_exchange_rate_def get_exchange_rate_eq card_for_def
      after_fetch_def ensure_entry_def split: sum.splits prod.splits)

lemma for_coins_outcome: "fst (for_coins E coins st) = loop_outcome E coins"
  by (induction coins arbitrary: st) (simp_all add: show_rates_body_eq split: sum.splits)

lemma for_coins_children:
  "grid_children (snd (for_coins E coins st)) = grid_children st @ built_cards E coins"
  by (induction coins arbitrary: st)
    (simp_all add: show_rates_body_eq after_fetch_def ensure_entry_def set_children_def
      split: sum.splits)

lemma for_coins_calls:
  "load_calls (snd (for_coins E coins st)) = load_calls st @ map daily_call (attempted E coins)"
  by (induction coins arbitrary: st)
    (simp_all add: show_rates_body_eq after_fetch_def ensure_entry_def set_children_def
      split: sum.splits)

lemma for_coins_rates:
  "exchange_rates (snd (for_coins E coins st)) k =
     (if k \<in> set (attempted E coins) \<and> exchange_rates st k = None
      then Some \<lparr>price = None, color = None\<rparr> else exchange_rates st k)"
  by (induction coins arbitrary: st)
    (auto simp add: show_rates_body_eq after_fetch_def ensure_entry_def set_children_def
      split: sum.splits)

lemma for_coins_assignments:
  "grid_assignments (snd (for_coins E coins st)) =
     grid_assignments st @
     map (\<lambda>k. grid_children st @ take k (built_cards E coins))
       [1..<Suc (length (built_cards E coins))]"
proof (induction coins arbitrary: st)
  case Nil
  then show ?case by simp
next
  case (Cons coin rest)
  show ?case
  proof (cases "card_for E coin")
    case (Inl e)
    then show ?thesis by (simp add: show_rates_body_eq after_fetch_def ensure_entry_def)
  next
    case (Inr w)
    have "map (\<lambda>k. grid_children st @ take k (w # built_cards E rest))
            [1..<Suc (Suc (length (built_cards E rest)))] =
          (grid_children st @ [w]) #
          map (\<lambda>k. (grid_children st @ [w]) @ take k (built_cards E rest))
            [1..<Suc (length (built_cards E rest))]"
    proof -
      let ?n = "length (built_cards E rest)"
      have "[1..<Suc (Suc ?n)] = 1 # map Suc [1..<Suc ?n]"
        by (simp add: upt_conv_Cons map_Suc_upt del: upt_Suc)
      then show ?thesis by (simp add: comp_def del: upt_Suc)
    qed
    with Inr Cons show ?thesis
      by (simp add: show_rates_body_eq after_fetch_def ensure_entry_def set_children_def)
  qed
qed

lemma loop_outcome_Returned:
  "loop_outcome E coins = Returned \<Longrightarrow>
     attempted E coins = coins \<and>
     list_all2 (\<lambda>coin w. card_for E coin = Inr w) coins (built_cards E coins)"
  by (induction coins) (auto split: sum.splits)

lemma card_for_iff:
  "card_for E coin = Inr w \<longleftrightarrow>
     (\<exists>p c. fst (try_get_exchange_rate E coin st) = Inr (p, c) \<and>
            price_card_widget E coin p c = Inr w)"
  by (auto simp add: card_for_def try_get_exchange_rate_def get_exchange_rate_eq
      split: sum.splits prod.splits)

lemma card_for_raises_iff:
  "card_for E coin = Inl e \<longleftrightarrow>
     fst (try_get_exchange_rate E coin st) = Inl e \<or>
     (\<exists>p c. fst (try_get_exchange_rate E coin st) = Inr (p, c) \<and>
            price_card_widget E coin p c = Inl e)"
  by (auto simp add: card_for_def try_get_exchange_rate_def get_exchange_rate_eq
      split: sum.splits prod.splits)

lemma loop_stops_at:
  "loop_outcome E before = Returned \<Longrightarrow> card_for E coin = Inl e \<Longrightarrow>
     loop_outcome E (before @ coin # later) = Raised e \<and>
     built_cards E (before @ coin # later) = built_cards E before \<and>
     attempted E (before @ coin # later) = before @ [coin] \<and>
     length (built_cards E before) = length before"
  by (induction before) (auto split: sum.splits)

subsection \<open>get\_exchange\_rate on a frame\<close>

lemma last_two_rows:
  assumes "2 \<le> length (col :: 'a list)"
  shows "\<exists>older prior latest. col = older @ [prior, latest]"
proof -
  from assms obtain ys latest where 1: "col = ys @ [latest]"
    by (cases col rule: rev_cases) auto
  with assms obtain older prior where 2: "ys = older @ [prior]"
    by (cases ys rule: rev_cases) auto
  from 1 2 show ?thesis by simp
qed

lemma iloc_last_two:
  "iloc (older @ [prior, latest]) 1 = Inr latest"
  "iloc (older @ [prior, latest]) 2 = Inr prior"
  by (simp_all add: iloc_def nth_append)

lemma iloc_short: "length col < 2 \<Longrightarrow> iloc col 2 = Inl IndexError"
  by (simp add: iloc_def)

lemma py_cmp_irrefl: "\<not> py_gt x x" "\<not> py_lt x x"
  by (cases x; simp)+

lemma rate_of_frame_rows:
  assumes "df ''Close'' = Some (older @ [prior, latest])"
  shows "rate_of_frame E df =
           Inr (take 7 (py_str E latest),
                if py_gt latest prior then ''up_color''
                else if py_lt latest prior then ''down_color'' else ''neutral_color'')"
proof -
  have "close_from_end df 1 = Inr latest" and "close_from_end df 2 = Inr prior"
    using assms by (simp_all add: close_from_end_def getitem_def iloc_def nth_append)
  then show ?thesis
    by (simp add: rate_of_frame_def compare_last_two_def price_text_def)
qed

lemma rate_of_frame_success:
  assumes "rate_of_frame E df = Inr (p, c)"
  shows "\<exists>older prior latest. df ''Close'' = Some (older @ [prior, latest]) \<and>
           p = take 7 (py_str E latest) \<and>
           c = (if py_gt latest prior then ''up_color''
                else if py_lt latest prior then ''down_color'' else ''neutral_color'')"
proof -
  from assms obtain col where col: "df ''Close'' = Some col"
    by (auto simp add: rate_of_frame_def compare_last_two_def close_from_end_def getitem_def
        split: sum.splits option.splits)
  have len: "2 \<le> length col"
  proof (rule ccontr)
    assume "\<not> 2 \<le> length col"
    then have "iloc col 2 = Inl IndexError" by (simp add: iloc_short)
    with col assms show False
      by (simp add: rate_of_frame_def compare_last_two_def close_from_end_def getitem_def
          split: sum.splits)
  qed
  from last_two_rows [OF len] obtain older prior latest
    where shape: "col = older @ [prior, latest]" by blast
  from col shape have rows: "df ''Close'' = Some (older @ [prior, latest])" by simp
  have "rate_of_frame E df =
          Inr (take 7 (py_str E latest),
               if py_gt latest prior then ''up_color''
               else if py_lt latest prior then ''down_color'' else ''neutral_color'')"
    using rows by (rule rate_of_frame_rows)
  with rows assms show ?thesis
    by (intro exI [of _ older] exI [of _ prior] exI [of _ latest]) simp
qed

text \<open>
  The same two facts for \<open>get_exchange_rate\<close>: a loaded frame whose Close column ends
  with two rows gives the price and the colour, and nothing else makes the function return.
\<close>

lemma get_exchange_rate_rows:
  assumes "load E \<lparr>symbol = coin, interval = ''1440'', source = ''CCXT''\<rparr> = Inr df"
    and "df ''Close'' = Some (older @ [prior, latest])"
  shows "fst (get_exchange_rate E coin days st) =
           Inr (take 7 (py_str E latest),
                if py_gt latest prior then ''up_color''
                else if py_lt latest prior then ''down_color'' else ''neutral_color'')"
proof -
  have "rate_of_frame E df =
          Inr (take 7 (py_str E latest),
               if py_gt latest prior then ''up_color''
               else if py_lt latest prior then ''down_color'' else ''neutral_color'')"
    using assms(2) by (rule rate_of_frame_rows)
  with assms(1) show ?thesis
    by (simp add: get_exchange_rate_def crypto_load_def)
qed

lemma get_exchange_rate_success:
  assumes "fst (get_exchange_rate E coin days st) = Inr (p, c)"
  shows "\<exists>df older prior latest.
           load E \<lparr>symbol = coin, interval = ''1440'', source = ''CCXT''\<rparr> = Inr df \<and>
           df ''Close'' = Some (older @ [prior, latest]) \<and>
           p = take 7 (py_str E latest) \<and>
           c = (if py_gt latest prior then ''up_color''
                else if py_lt latest prior then ''down_color'' else ''neutral_color'')"
proof -
  from assms obtain df
    where df: "load E \<lparr>symbol = coin, interval = ''1440'', source = ''CCXT''\<rparr> = Inr df"
      and rate: "rate_of_frame E df = Inr (p, c)"
    by (auto simp add: get_exchange_rate_def crypto_load_def split: sum.splits)
  from rate_of_frame_success [OF rate] df show ?thesis by blast
qed

subsection \<open>Unfolding the concrete environments\<close>

lemmas eval_defs =
  card_for_def exchange_rate_of_def daily_call_def bound_env_def notebook_env_def offline_env_def
  flaky_env_def flaky_price_card_def
  demo_load_def closes_frame_def rate_of_frame_def compare_last_two_def close_from_end_def
  getitem_def iloc_def price_text_def price_card_widget_def demo_price_card_def

lemma bound_env_returns: "loop_outcome bound_env COIN_LIST = Returned"
  by (simp add: COIN_LIST_eq eval_defs)

lemma bound_env_cards: "built_cards bound_env COIN_LIST =
  HTML ''BTC 12.0 up_color'' # HTML ''ETH ------- neutral_color'' #
  HTML ''USDT ------- neutral_color'' # HTML ''BNB 12345.6 up_color'' #
  HTML ''USDC 10.0 down_color'' # HTML ''XRP 10.0 neutral_color'' #
  HTML ''LUNA 12345.6 down_color'' #
  map (\<lambda>coin. HTML (coin @ '' 10.0 down_color'')) (drop 7 COIN_LIST)"
  by (simp add: COIN_LIST_eq eval_defs)

subsection \<open>A whole refresh\<close>

text \<open>
  The five observable parts of the state after \<open>show_rates\<close>, whatever its outcome: the
  outcome, the grid, the calls made, the dictionary and the assignments to the grid.
\<close>

lemma show_rates_outcome: "fst (show_rates E st) = loop_outcome E COIN_LIST"
  by (simp add: show_rates_def for_coins_outcome)

lemma show_rates_children: "grid_children (snd (show_rates E st)) = built_cards E COIN_LIST"
  by (simp add: show_rates_def for_coins_children set_children_def)

lemma show_rates_calls:
  "load_calls (snd (show_rates E st)) = load_calls st @ map daily_call (attempted E COIN_LIST)"
  by (simp add: show_rates_def for_coins_calls set_children_def)

lemma show_rates_rates:
  "exchange_rates (snd (show_rates E st)) k =
     (if k \<in> set (attempted E COIN_LIST) \<and> exchange_rates st k = None
      then Some \<lparr>price = None, color = None\<rparr> else exchange_rates st k)"
  by (simp add: show_rates_def for_coins_rates set_children_def)

lemma show_rates_assignments:
  "grid_assignments (snd (show_rates E st)) =
     grid_assignments st @
     map (\<lambda>k. take k (built_cards E COIN_LIST)) [0..<Suc (length (built_cards E COIN_LIST))]"
proof -
  have "[0..<Suc (length (built_cards E COIN_LIST))] =
          0 # [1..<Suc (length (built_cards E COIN_LIST))]"
    by (simp add: upt_conv_Cons del: upt_Suc)
  then show ?thesis
    by (simp add: show_rates_def for_coins_assignments set_children_def del: upt_Suc)
qed

text \<open>
  The calls made are always an initial part of the list, in its order; a refresh that
  returns has made one call per symbol.
\<close>

lemma attempted_is_prefix: "\<exists>n. attempted E coins = take n coins"
proof (induction coins)
  case Nil
  then show ?case by simp
next
  case (Cons coin rest)
  then obtain n where n: "attempted E rest = take n rest" ..
  show ?case
  proof (cases "card_for E coin")
    case (Inl e)
    then have "attempted E (coin # rest) = take 1 (coin # rest)" by simp
    then show ?thesis ..
  next
    case (Inr w)
    with n have "attempted E (coin # rest) = take (Suc n) (coin # rest)" by simp
    then show ?thesis ..
  qed
qed

lemma load_calls_in_list_order:
  "\<exists>n. load_calls (snd (show_rates E st)) = load_calls st @ map daily_call (take n COIN_LIST)"
  using attempted_is_prefix [of E COIN_LIST] by (auto simp add: show_rates_calls)

lemma completed_refresh_calls:
  "fst (show_rates E st) = Returned \<Longrightarrow>
     load_calls (snd (show_rates E st)) = load_calls st @ map daily_call COIN_LIST"
  by (simp add: show_rates_outcome show_rates_calls loop_outcome_Returned)

text \<open>
  The \<open>try\<close> statement does what it is written for: when the fetch raises an
  \<open>Exception\<close> and the card can be built, the iteration appends the placeholder card and
  the loop goes on. With \<open>api\<close> bound to a renderer that never raises, and a loader that
  raises nothing outside \<open>Exception\<close>, the refresh returns.
\<close>

lemma fetch_failure_contained:
  assumes "fst (get_exchange_rate E coin 2 st) = Inl e" and "is_Exception e"
    and "price_card_widget E coin ''-------'' ''neutral_color'' = Inr w"
  shows "show_rates_body E coin st =
           (Returned, set_children (grid_children st @ [w]) (after_fetch coin st))"
  using assms by (simp add: show_rates_body_eq card_for_def get_exchange_rate_eq)

lemma loop_returns:
  assumes "api E = Some pc" and "\<And>t p c. \<exists>markup. pc t p c = Inr markup"
    and "\<And>coin e. exchange_rate_of E coin = Inl e \<Longrightarrow> is_Exception e"
  shows "loop_outcome E coins = Returned"
proof -
  have "\<exists>w. card_for E coin = Inr w" for coin
  proof (cases "exchange_rate_of E coin")
    case (Inl e)
    with assms(3) have "is_Exception e" by simp
    moreover obtain markup where "pc coin ''-------'' ''neutral_color'' = Inr markup"
      using assms(2) by blast
    ultimately show ?thesis using Inl assms(1)
      by (simp add: card_for_def price_card_widget_def)
  next
    case (Inr pr)
    obtain p c where pr: "pr = (p, c)" by (cases pr)
    obtain markup where "pc coin p c = Inr markup" using assms(2) by blast
    with Inr pr assms(1) show ?thesis by (simp add: card_for_def price_card_widget_def)
  qed
  then have card: "\<exists>w. card_for E coin = Inr w" for coin .
  show ?thesis
  proof (induction coins)
    case Nil
    then show ?case by simp
  next
    case (Cons coin rest)
    from card obtain w where "card_for E coin = Inr w" ..
    with Cons show ?case by simp
  qed
qed

lemma refresh_returns:
  assumes "api E = Some pc" and "\<And>t p c. \<exists>markup. pc t p c = Inr markup"
    and "\<And>coin e. exchange_rate_of E coin = Inl e \<Longrightarrow> is_Exception e"
  shows "fst (show_rates E st) = Returned"
  using loop_returns [OF assms] by (simp add: show_rates_outcome)

text \<open>
  A refresh that returns leaves one card per symbol, in list order: the children
  correspond position by position to the 48 distinct symbols, each being the widget built
  from its symbol and the price and colour of that symbol's \<open>try\<close> statement. A kernel
  in which \<open>api\<close> is bound is an instance.
\<close>

lemma returned_refresh_cards:
  assumes "fst (show_rates E st) = Returned"
  shows "list_all2
           (\<lambda>coin w. \<exists>p c. fst (try_get_exchange_rate E coin st) = Inr (p, c) \<and>
                            price_card_widget E coin p c = Inr w)
           COIN_LIST (grid_children (snd (show_rates E st))) \<and>
         length (grid_children (snd (show_rates E st))) = 48 \<and>
         distinct COIN_LIST"
proof -
  from assms have "loop_outcome E COIN_LIST = Returned"
    by (simp add: show_rates_def for_coins_outcome)
  then have "list_all2 (\<lambda>coin w. card_for E coin = Inr w) COIN_LIST (built_cards E COIN_LIST)"
    by (simp add: loop_outcome_Returned)
  then have cards: "list_all2
      (\<lambda>coin w. \<exists>p c. fst (try_get_exchange_rate E coin st) = Inr (p, c) \<and>
                       price_card_widget E coin p c = Inr w)
      COIN_LIST (built_cards E COIN_LIST)"
    by (simp add: card_for_iff [where st = st])
  have grid: "grid_children (snd (show_rates E st)) = built_cards E COIN_LIST"
    by (simp add: show_rates_def for_coins_children set_children_def)
  from cards have "length (built_cards E COIN_LIST) = 48"
    by (simp add: list_all2_lengthD [symmetric] length_COIN_LIST)
  with cards grid show ?thesis by (simp add: distinct_COIN_LIST)
qed

lemma returned_refresh_cards_bound_env:
  "fst (show_rates bound_env fresh_notebook) = Returned \<and>
   list_all2
     (\<lambda>coin w. \<exists>p c. fst (try_get_exchange_rate bound_env coin fresh_notebook) = Inr (p, c) \<and>
                      price_card_widget bound_env coin p c = Inr w)
     COIN_LIST (grid_children (snd (show_rates bound_env fresh_notebook))) \<and>
   length (grid_children (snd (show_rates bound_env fresh_notebook))) = 48"
proof -
  have h: "fst (show_rates bound_env fresh_notebook) = Returned"
    by (simp add: show_rates_def for_coins_outcome bound_env_returns)
  from h returned_refresh_cards [OF h] show ?thesis by simp
qed

text \<open>
  With \<open>api\<close> unbound, the first card construction raises \<open>NameError\<close>: the refresh
  ends after one call to the loader and the grid stays empty.
\<close>

lemma unbound_api_raises:
  assumes "api E = None"
    and "\<And>e. exchange_rate_of E ''BTC'' = Inl e \<Longrightarrow> is_Exception e"
  shows "fst (show_rates E st) = Raised (NameError ''api'')"
    and "grid_children (snd (show_rates E st)) = []"
    and "load_calls (snd (show_rates E st)) = load_calls st @ [daily_call ''BTC'']"
proof -
  have "card_for E ''BTC'' = Inl (NameError ''api'')"
    using assms by (auto simp add: card_for_def price_card_widget_def split: sum.splits)
  then show "fst (show_rates E st) = Raised (NameError ''api'')"
    and "grid_children (snd (show_rates E st)) = []"
    and "load_calls (snd (show_rates E st)) = load_calls st @ [daily_call ''BTC'']"
    by (simp_all add: show_rates_outcome show_rates_children show_rates_calls COIN_LIST_eq)
qed

text \<open>
  With \<open>api\<close> unbound no click returns and the grid is left empty, whatever the loader
  answers and whatever the state.
\<close>

lemma unbound_api_never_returns:
  assumes "api E = None"
  shows "fst (show_rates E st) \<noteq> Returned" and "grid_children (snd (show_rates E st)) = []"
proof -
  have "\<exists>e. card_for E ''BTC'' = Inl e"
    using assms by (auto simp add: card_for_def price_card_widget_def split: sum.splits)
  then obtain e where "card_for E ''BTC'' = Inl e" ..
  then show "fst (show_rates E st) \<noteq> Returned"
    and "grid_children (snd (show_rates E st)) = []"
    by (simp_all add: show_rates_outcome show_rates_children COIN_LIST_eq)
qed

text \<open>An entry of the dictionary keeps its value through any number of clicks.\<close>

lemma clicks_rates_kept:
  "exchange_rates st k = Some v \<Longrightarrow> exchange_rates (clicks Es st) k = Some v"
  by (induction Es arbitrary: st) (simp_all add: show_rates_rates)

section \<open>The claims\<close>

subsection \<open>C3: the colour of a successful fetch\<close>

text \<open>
  Claim C3. When the loader returns a frame whose Close column ends with the two rows
  \<open>prior\<close>, \<open>latest\<close> (in chronological order), \<open>get_exchange_rate\<close> returns, and the
  colour it returns, which is the colour handed to the symbol's card, is \<open>up_color\<close> if
  \<open>latest > prior\<close>, \<open>down_color\<close> if \<open>latest < prior\<close> and \<open>neutral_color\<close>
  otherwise; equal closes give \<open>neutral_color\<close>. These are all the fetches that succeed:
  whenever \<open>get_exchange_rate\<close> returns, the loader returned such a frame and the colour
  is the one stated.
\<close>

theorem get_exchange_rate_color:
  "(load E \<lparr>symbol = coin, interval = ''1440'', source = ''CCXT''\<rparr> = Inr df \<longrightarrow>
    df ''Close'' = Some (older @ [prior, latest]) \<longrightarrow>
      (\<exists>p. fst (get_exchange_rate E coin days st) =
             Inr (p, if py_gt latest prior then ''up_color''
                     else if py_lt latest prior then ''down_color'' else ''neutral_color'')) \<and>
      (latest = prior \<longrightarrow>
         (\<exists>p. fst (get_exchange_rate E coin days st) = Inr (p, ''neutral_color'')))) \<and>
   (fst (get_exchange_rate E coin days st) = Inr (p', c') \<longrightarrow>
      (\<exists>df' older' prior' latest'.
          load E \<lparr>symbol = coin, interval = ''1440'', source = ''CCXT''\<rparr> = Inr df' \<and>
          df' ''Close'' = Some (older' @ [prior', latest']) \<and>
          c' = (if py_gt latest' prior' then ''up_color''
                else if py_lt latest' prior' then ''down_color'' else ''neutral_color'')))"
proof (intro conjI impI)
  assume df: "load E \<lparr>symbol = coin, interval = ''1440'', source = ''CCXT''\<rparr> = Inr df"
    and rows: "df ''Close'' = Some (older @ [prior, latest])"
  note result = get_exchange_rate_rows [OF df rows, of days st]
  from result
  show "\<exists>p. fst (get_exchange_rate E coin days st) =
             Inr (p, if py_gt latest prior then ''up_color''
                     else if py_lt latest prior then ''down_color'' else ''neutral_color'')"
    by blast
  assume "latest = prior"
  with result have "fst (get_exchange_rate E coin days st) =
      Inr (take 7 (py_str E latest), ''neutral_color'')"
    by (simp add: py_cmp_irrefl)
  then show "\<exists>p. fst (get_exchange_rate E coin days st) = Inr (p, ''neutral_color'')"
    by blast
next
  assume "fst (get_exchange_rate E coin days st) = Inr (p', c')"
  from get_exchange_rate_success [OF this]
  show "\<exists>df' older' prior' latest'.
          load E \<lparr>symbol = coin, interval = ''1440'', source = ''CCXT''\<rparr> = Inr df' \<and>
          df' ''Close'' = Some (older' @ [prior', latest']) \<and>
          c' = (if py_gt latest' prior' then ''up_color''
                else if py_lt latest' prior' then ''down_color'' else ''neutral_color'')"
    by blast
qed

text \<open>
  C3, witness: the three cases in the demonstration environment. BTC has closes 10 then 12
  and is up, USDC has 12 then 10 and is down, XRP has 10 then 10 and is neutral.
\<close>

theorem get_exchange_rate_color_witness:
  "load bound_env \<lparr>symbol = ''BTC'', interval = ''1440'', source = ''CCXT''\<rparr> =
     Inr (closes_frame [10, 12]) \<and>
   closes_frame [10, 12] ''Close'' = Some ([] @ [Num 10, Num 12]) \<and>
   (\<exists>p. fst (get_exchange_rate bound_env ''BTC'' 2 fresh_notebook) = Inr (p, ''up_color'')) \<and>
   load bound_env \<lparr>symbol = ''USDC'', interval = ''1440'', source = ''CCXT''\<rparr> =
     Inr (closes_frame [12, 10]) \<and>
   closes_frame [12, 10] ''Close'' = Some ([] @ [Num 12, Num 10]) \<and>
   (\<exists>p. fst (get_exchange_rate bound_env ''USDC'' 2 fresh_notebook) = Inr (p, ''down_color'')) \<and>
   load bound_env \<lparr>symbol = ''XRP'', interval = ''1440'', source = ''CCXT''\<rparr> =
     Inr (closes_frame [10, 10]) \<and>
   closes_frame [10, 10] ''Close'' = Some ([] @ [Num 10, Num 10]) \<and>
   (\<exists>p. fst (get_exchange_rate bound_env ''XRP'' 2 fresh_notebook) = Inr (p, ''neutral_color'')) \<and>
   fst (get_exchange_rate bound_env ''USDC'' 2 fresh_notebook) = Inr (''10.0'', ''down_color'') \<and>
   (\<exists>df older prior latest.
      load bound_env \<lparr>symbol = ''USDC'', interval = ''1440'', source = ''CCXT''\<rparr> = Inr df \<and>
      df ''Close'' = Some (older @ [prior, latest]) \<and>
      ''down_color'' = (if py_gt latest prior then ''up_color''
           else if py_lt latest prior then ''down_color'' else ''neutral_color''))"
proof -
  have l1: "load bound_env \<lparr>symbol = ''BTC'', interval = ''1440'', source = ''CCXT''\<rparr> =
              Inr (closes_frame [10, 12])"
    and l2: "load bound_env \<lparr>symbol = ''USDC'', interval = ''1440'', source = ''CCXT''\<rparr> =
              Inr (closes_frame [12, 10])"
    and l3: "load bound_env \<lparr>symbol = ''XRP'', interval = ''1440'', source = ''CCXT''\<rparr> =
              Inr (closes_frame [10, 10])"
    by (simp_all add: bound_env_def demo_load_def)
  have f1: "closes_frame [10, 12] ''Close'' = Some ([] @ [Num 10, Num 12])"
    and f2: "closes_frame [12, 10] ''Close'' = Some ([] @ [Num 12, Num 10])"
    and f3: "closes_frame [10, 10] ''Close'' = Some ([] @ [Num 10, Num 10])"
    by (simp_all add: closes_frame_def)
  have r: "fst (get_exchange_rate bound_env ''USDC'' 2 fresh_notebook) =
             Inr (''10.0'', ''down_color'')"
    by (simp add: get_exchange_rate_eq eval_defs)
  have up: "\<exists>p. fst (get_exchange_rate bound_env ''BTC'' 2 fresh_notebook) = Inr (p, ''up_color'')"
    using l1 f1
      get_exchange_rate_color [where E = bound_env and coin = "''BTC''"
        and df = "closes_frame [10, 12]" and older = "[]" and prior = "Num 10"
        and latest = "Num 12" and days = 2 and st = fresh_notebook]
    by simp
  have down: "\<exists>p. fst (get_exchange_rate bound_env ''USDC'' 2 fresh_notebook) =
                Inr (p, ''down_color'')"
    using l2 f2
      get_exchange_rate_color [where E = bound_env and coin = "''USDC''"
        and df = "closes_frame [12, 10]" and older = "[]" and prior = "Num 12"
        and latest = "Num 10" and days = 2 and st = fresh_notebook]
    by simp
  have flat: "\<exists>p. fst (get_exchange_rate bound_env ''XRP'' 2 fresh_notebook) =
                Inr (p, ''neutral_color'')"
    using l3 f3
      get_exchange_rate_color [where E = bound_env and coin = "''XRP''"
        and df = "closes_frame [10, 10]" and older = "[]" and prior = "Num 10"
        and latest = "Num 10" and days = 2 and st = fresh_notebook]
    by simp
  have conv: "\<exists>df older prior latest.
      load bound_env \<lparr>symbol = ''USDC'', interval = ''1440'', source = ''CCXT''\<rparr> = Inr df \<and>
      df ''Close'' = Some (older @ [prior, latest]) \<and>
      ''down_color'' = (if py_gt latest prior then ''up_color''
           else if py_lt latest prior then ''down_color'' else ''neutral_color'')"
    using r
      get_exchange_rate_color [where E = bound_env and coin = "''USDC''" and days = 2
        and st = fresh_notebook and p' = "''10.0''" and c' = "''down_color''"]
    by simp
  from l1 l2 l3 f1 f2 f3 r up down flat conv show ?thesis by blast
qed

subsection \<open>C4: the display price of a successful fetch\<close>

text \<open>
  Claim C4. When the loader returns a frame whose Close column ends with the two rows
  \<open>prior\<close>, \<open>latest\<close>, \<open>get_exchange_rate\<close> returns, whatever the order of the two
  closes, and the price string it returns is the first seven characters of \<open>str\<close> of the
  latest close: a cut, with no rounding. In particular a latest close that \<open>str\<close> prints
  as \<open>12345.6789\<close> is displayed as \<open>12345.6\<close>. These are all the fetches that succeed:
  whenever \<open>get_exchange_rate\<close> returns, its price is that cut of the last close of the
  loaded frame.
\<close>

theorem get_exchange_rate_price:
  "(load E \<lparr>symbol = coin, interval = ''1440'', source = ''CCXT''\<rparr> = Inr df \<longrightarrow>
    df ''Close'' = Some (older @ [prior, latest]) \<longrightarrow>
      (\<exists>c. fst (get_exchange_rate E coin days st) = Inr (take 7 (py_str E latest), c)) \<and>
      (py_str E latest = ''12345.6789'' \<longrightarrow>
         (\<exists>c. fst (get_exchange_rate E coin days st) = Inr (''12345.6'', c)))) \<and>
   (fst (get_exchange_rate E coin days st) = Inr (p', c') \<longrightarrow>
      (\<exists>df' older' latest'.
          load E \<lparr>symbol = coin, interval = ''1440'', source = ''CCXT''\<rparr> = Inr df' \<and>
          df' ''Close'' = Some (older' @ [latest']) \<and>
          p' = take 7 (py_str E latest')))"
proof (intro conjI impI)
  assume df: "load E \<lparr>symbol = coin, interval = ''1440'', source = ''CCXT''\<rparr> = Inr df"
    and rows: "df ''Close'' = Some (older @ [prior, latest])"
  note result = get_exchange_rate_rows [OF df rows, of days st]
  from result
  show "\<exists>c. fst (get_exchange_rate E coin days st) = Inr (take 7 (py_str E latest), c)"
    by blast
  assume "py_str E latest = ''12345.6789''"
  then have "take 7 (py_str E latest) = ''12345.6''" by simp
  with result show "\<exists>c. fst (get_exchange_rate E coin days st) = Inr (''12345.6'', c)"
    by simp
next
  assume "fst (get_exchange_rate E coin days st) = Inr (p', c')"
  from get_exchange_rate_success [OF this] obtain df' older' prior' latest'
    where df': "load E \<lparr>symbol = coin, interval = ''1440'', source = ''CCXT''\<rparr> = Inr df'"
      and rows': "df' ''Close'' = Some (older' @ [prior', latest'])"
      and p': "p' = take 7 (py_str E latest')"
    by blast
  from rows' have "df' ''Close'' = Some ((older' @ [prior']) @ [latest'])" by simp
  with df' p'
  show "\<exists>df' older' latest'.
          load E \<lparr>symbol = coin, interval = ''1440'', source = ''CCXT''\<rparr> = Inr df' \<and>
          df' ''Close'' = Some (older' @ [latest']) \<and>
          p' = take 7 (py_str E latest')"
    by blast
qed

text \<open>
  C4, witness: in the demonstration environment BNB rises to 12345.6789 and LUNA falls to
  12345.6789, both are displayed as \<open>12345.6\<close>; XRP is flat at 10 and displayed as
  \<open>10.0\<close>.
\<close>

theorem get_exchange_rate_price_witness:
  "py_str bound_env (Num 12345.6789) = ''12345.6789'' \<and>
   load bound_env \<lparr>symbol = ''BNB'', interval = ''1440'', source = ''CCXT''\<rparr> =
     Inr (closes_frame [9, 12345.6789]) \<and>
   closes_frame [9, 12345.6789] ''Close'' = Some ([] @ [Num 9, Num 12345.6789]) \<and>
   (\<exists>c. fst (get_exchange_rate bound_env ''BNB'' 2 fresh_notebook) = Inr (''12345.6'', c)) \<and>
   load bound_env \<lparr>symbol = ''LUNA'', interval = ''1440'', source = ''CCXT''\<rparr> =
     Inr (closes_frame [20000, 12345.6789]) \<and>
   closes_frame [20000, 12345.6789] ''Close'' = Some ([] @ [Num 20000, Num 12345.6789]) \<and>
   (\<exists>c. fst (get_exchange_rate bound_env ''LUNA'' 2 fresh_notebook) = Inr (''12345.6'', c)) \<and>
   load bound_env \<lparr>symbol = ''XRP'', interval = ''1440'', source = ''CCXT''\<rparr> =
     Inr (closes_frame [10, 10]) \<and>
   closes_frame [10, 10] ''Close'' = Some ([] @ [Num 10, Num 10]) \<and>
   (\<exists>c. fst (get_exchange_rate bound_env ''XRP'' 2 fresh_notebook) = Inr (''10.0'', c)) \<and>
   fst (get_exchange_rate bound_env ''LUNA'' 2 fresh_notebook) = Inr (''12345.6'', ''down_color'') \<and>
   (\<exists>df older latest.
      load bound_env \<lparr>symbol = ''LUNA'', interval = ''1440'', source = ''CCXT''\<rparr> = Inr df \<and>
      df ''Close'' = Some (older @ [latest]) \<and>
      ''12345.6'' = take 7 (py_str bound_env latest))"
proof -
  have s: "py_str bound_env (Num 12345.6789) = ''12345.6789''"
    and s10: "py_str bound_env (Num 10) = ''10.0''"
    by (simp_all add: bound_env_def)
  have l1: "load bound_env \<lparr>symbol = ''BNB'', interval = ''1440'', source = ''CCXT''\<rparr> =
              Inr (closes_frame [9, 12345.6789])"
    and l2: "load bound_env \<lparr>symbol = ''LUNA'', interval = ''1440'', source = ''CCXT''\<rparr> =
              Inr (closes_frame [20000, 12345.6789])"
    and l3: "load bound_env \<lparr>symbol = ''XRP'', interval = ''1440'', source = ''CCXT''\<rparr> =
              Inr (closes_frame [10, 10])"
    by (simp_all add: bound_env_def demo_load_def)
  have f1: "closes_frame [9, 12345.6789] ''Close'' = Some ([] @ [Num 9, Num 12345.6789])"
    and f2: "closes_frame [20000, 12345.6789] ''Close'' =
               Some ([] @ [Num 20000, Num 12345.6789])"
    and f3: "closes_frame [10, 10] ''Close'' = Some ([] @ [Num 10, Num 10])"
    by (simp_all add: closes_frame_def)
  have r: "fst (get_exchange_rate bound_env ''LUNA'' 2 fresh_notebook) =
             Inr (''12345.6'', ''down_color'')"
    by (simp add: get_exchange_rate_eq eval_defs)
  have rising: "\<exists>c. fst (get_exchange_rate bound_env ''BNB'' 2 fresh_notebook) =
                  Inr (''12345.6'', c)"
    using l1 f1 s
      get_exchange_rate_price [where E = bound_env and coin = "''BNB''"
        and df = "closes_frame [9, 12345.6789]" and older = "[]" and prior = "Num 9"
        and latest = "Num 12345.6789" and days = 2 and st = fresh_notebook]
    by simp
  have falling: "\<exists>c. fst (get_exchange_rate bound_env ''LUNA'' 2 fresh_notebook) =
                   Inr (''12345.6'', c)"
    using l2 f2 s
      get_exchange_rate_price [where E = bound_env and coin = "''LUNA''"
        and df = "closes_frame [20000, 12345.6789]" and older = "[]" and prior = "Num 20000"
        and latest = "Num 12345.6789" and days = 2 and st = fresh_notebook]
    by simp
  have flat: "\<exists>c. fst (get_exchange_rate bound_env ''XRP'' 2 fresh_notebook) = Inr (''10.0'', c)"
    using l3 f3 s10
      get_exchange_rate_price [where E = bound_env and coin = "''XRP''"
        and df = "closes_frame [10, 10]" and older = "[]" and prior = "Num 10"
        and latest = "Num 10" and days = 2 and st = fresh_notebook]
    by simp
  have conv: "\<exists>df older latest.
      load bound_env \<lparr>symbol = ''LUNA'', interval = ''1440'', source = ''CCXT''\<rparr> = Inr df \<and>
      df ''Close'' = Some (older @ [latest]) \<and>
      ''12345.6'' = take 7 (py_str bound_env latest)"
    using r
      get_exchange_rate_price [where E = bound_env and coin = "''LUNA''" and days = 2
        and st = fresh_notebook and p' = "''12345.6''" and c' = "''down_color''"]
    by simp
  from s l1 l2 l3 f1 f2 f3 r rising falling flat conv show ?thesis by blast
qed

subsection \<open>C5: the cards of a refresh in the notebook as it is\<close>

text \<open>
  Claim C5 says that the grid of a completed refresh holds exactly one card per symbol of
  the 48-symbol list. In the notebook as it is no refresh completes: the name \<open>api\<close> is
  unbound, so every click ends with \<open>NameError\<close> at the first card (lemma
  \<open>unbound_api_never_returns\<close>, for every loader and state). Evaluation at the first
  click, with the demonstration loader and with the network down: the click raises, and
  the grid it leaves holds no card for any of the 48 symbols.
\<close>

theorem no_card_in_notebook_as_is:
  "fst (show_rates notebook_env fresh_notebook) = Raised (NameError ''api'') \<and>
   grid_children (snd (show_rates notebook_env fresh_notebook)) = [] \<and>
   fst (show_rates offline_env fresh_notebook) = Raised (NameError ''api'') \<and>
   grid_children (snd (show_rates offline_env fresh_notebook)) = [] \<and>
   length (grid_children (snd (show_rates notebook_env fresh_notebook))) \<noteq> length COIN_LIST"
proof -
  have 1: "card_for notebook_env ''BTC'' = Inl (NameError ''api'')"
    by (simp add: eval_defs)
  have 2: "card_for offline_env ''BTC'' = Inl (NameError ''api'')"
    by (simp add: card_for_def exchange_rate_of_def price_card_widget_def offline_env_def)
  have 3: "grid_children (snd (show_rates E fresh_notebook)) = []" if "api E = None" for E
    using that by (rule unbound_api_never_returns)
  have "api notebook_env = None" and "api offline_env = None"
    by (simp_all add: notebook_env_def offline_env_def)
  with 1 2 3 show ?thesis
    by (simp add: show_rates_outcome COIN_LIST_eq)
qed

subsection \<open>C7: the same grid on a second click\<close>

text \<open>
  Claim C7. Two clicks in a row with the same environment (the loader answers each call as
  before) leave the same grid, and the grid does not depend on what the dictionary
  \<open>exchange_rates\<close> held before the click.
\<close>

theorem show_rates_same_grid:
  "grid_children (snd (show_rates E (snd (show_rates E st)))) =
     grid_children (snd (show_rates E st)) \<and>
   grid_children (snd (show_rates E (st\<lparr>exchange_rates := m\<rparr>))) =
     grid_children (snd (show_rates E st))"
  by (simp add: show_rates_def for_coins_children set_children_def)

subsection \<open>C6: how often the grid is assigned\<close>

text \<open>
  Claim C6 says that the grid is replaced exactly once in a refresh, at the end, by the
  complete card sequence, and that no partial sequence is exposed. The loop is written
  otherwise: \<open>grid.children\<close> is assigned the empty tuple before the loop and one more
  card after every symbol. Counterexample: in a kernel where \<open>api\<close> is bound the first
  click assigns the grid 49 times, the second value being the single BTC card; in the
  notebook as it is the only assignment is the empty tuple.
\<close>

theorem grid_replaced_once_counterexample:
  "grid_assignments (snd (show_rates bound_env fresh_notebook)) \<noteq>
     [grid_children (snd (show_rates bound_env fresh_notebook))] \<and>
   length (grid_assignments (snd (show_rates bound_env fresh_notebook))) = 49 \<and>
   grid_assignments (snd (show_rates bound_env fresh_notebook)) ! 1 = [HTML ''BTC 12.0 up_color''] \<and>
   grid_assignments (snd (show_rates notebook_env fresh_notebook)) = [[]]"
proof -
  let ?st = "snd (show_rates bound_env fresh_notebook)"
  have "built_cards notebook_env COIN_LIST = []"
    by (simp add: COIN_LIST_eq eval_defs)
  then have 4: "grid_assignments (snd (show_rates notebook_env fresh_notebook)) = [[]]"
    by (simp add: show_rates_assignments fresh_notebook_def)
  have len: "length (built_cards bound_env COIN_LIST) = 48"
    by (simp add: bound_env_cards length_COIN_LIST)
  have none: "grid_assignments fresh_notebook = []"
    by (simp add: fresh_notebook_def)
  have log: "grid_assignments ?st =
      map (\<lambda>k. take k (built_cards bound_env COIN_LIST)) [0..<49]"
    by (simp add: show_rates_assignments len none del: upt_Suc)
  have 1: "length (grid_assignments ?st) = 49" by (simp add: log del: upt_Suc)
  have 2: "grid_assignments ?st ! 1 = [HTML ''BTC 12.0 up_color'']"
    by (simp add: log bound_env_cards del: upt_Suc)
  from 1 have 3: "grid_assignments ?st \<noteq> [grid_children ?st]" by auto
  from 1 2 3 4 show ?thesis by simp
qed

text \<open>
  Claim C6, amended. The values assigned to the grid during a refresh are exactly the
  initial parts of lengths 0, 1, ..., n of the card sequence the grid holds when the
  refresh ends: first the empty sequence, then one more card after each symbol whose card
  was built.
\<close>

theorem grid_assigned_every_prefix:
  "grid_assignments (snd (show_rates E st)) =
     grid_assignments st @
     map (\<lambda>k. take k (grid_children (snd (show_rates E st))))
       [0..<Suc (length (grid_children (snd (show_rates E st))))]"
  by (simp only: show_rates_children show_rates_assignments)

subsection \<open>C9: no entry is removed\<close>

text \<open>
  Claim C9. Whatever the sequence of clicks and whatever each click's environment (which
  fetches fail, whether the click returns or raises), every key of \<open>exchange_rates\<close>
  present before is present afterwards.
\<close>

theorem entries_never_removed:
  "k \<in> dom (exchange_rates st) \<Longrightarrow> k \<in> dom (exchange_rates (clicks Es st))"
  by (auto simp add: clicks_rates_kept)

text \<open>C9, witness: an old entry through three clicks, two of which raise.\<close>

theorem entries_never_removed_witness:
  "''OLD'' \<in> dom (exchange_rates stale_notebook) \<and>
   ''OLD'' \<in> dom (exchange_rates (clicks [bound_env, offline_env, flaky_env] stale_notebook))"
proof -
  have h: "''OLD'' \<in> dom (exchange_rates stale_notebook)"
    by (simp add: stale_notebook_def fresh_notebook_def)
  from h entries_never_removed [OF h, of "[bound_env, offline_env, flaky_env]"]
  show ?thesis by simp
qed

subsection \<open>C1: what the dictionary holds\<close>

text \<open>
  Claim C1 says that after a symbol is processed \<open>exchange_rates\<close> holds the price and
  colour just computed for it, overwriting the previous entry. No statement of the
  notebook writes them there: the only assignment to the dictionary is the one guarded by
  \<open>coin not in exchange_rates.keys()\<close>. Counterexample: BTC's fetch gives
  \<open>(12.0, up_color)\<close>, and the entry of BTC is \<open>{price: None, color: None}\<close> after the
  first click and still after the second; the same entry results in the notebook as it is.
\<close>

theorem computed_rate_not_stored_counterexample:
  "fst (get_exchange_rate bound_env ''BTC'' 2 (ensure_entry ''BTC'' (set_children [] fresh_notebook))) =
     Inr (''12.0'', ''up_color'') \<and>
   fst (show_rates bound_env fresh_notebook) = Returned \<and>
   exchange_rates (snd (show_rates bound_env fresh_notebook)) ''BTC'' =
     Some \<lparr>price = None, color = None\<rparr> \<and>
   exchange_rates (snd (show_rates bound_env (snd (show_rates bound_env fresh_notebook)))) ''BTC'' \<noteq>
     Some \<lparr>price = Some ''12.0'', color = Some ''up_color''\<rparr> \<and>
   exchange_rates (snd (show_rates notebook_env fresh_notebook)) ''BTC'' =
     Some \<lparr>price = None, color = None\<rparr>"
proof -
  have 6: "exchange_rates (snd (show_rates notebook_env fresh_notebook)) ''BTC'' =
             Some \<lparr>price = None, color = None\<rparr>"
    by (simp add: show_rates_rates fresh_notebook_def) (simp add: COIN_LIST_eq)
  have 1: "fst (get_exchange_rate bound_env ''BTC'' 2
              (ensure_entry ''BTC'' (set_children [] fresh_notebook))) =
            Inr (''12.0'', ''up_color'')"
    by (simp add: get_exchange_rate_eq eval_defs)
  have 2: "fst (show_rates bound_env fresh_notebook) = Returned"
    by (simp add: show_rates_outcome bound_env_returns)
  have 3: "attempted bound_env COIN_LIST = COIN_LIST"
    by (simp add: bound_env_returns loop_outcome_Returned)
  have 4: "exchange_rates (snd (show_rates bound_env fresh_notebook)) ''BTC'' =
             Some \<lparr>price = None, color = None\<rparr>"
    by (simp add: show_rates_rates 3 fresh_notebook_def) (simp add: COIN_LIST_eq)
  have 5: "exchange_rates (snd (show_rates bound_env (snd (show_rates bound_env fresh_notebook))))
             ''BTC'' = Some \<lparr>price = None, color = None\<rparr>"
    by (simp add: show_rates_rates [of bound_env "snd (show_rates bound_env fresh_notebook)"] 4)
  from 1 2 4 5 6 show ?thesis by simp
qed

text \<open>
  Claim C1, amended. After the iteration of a symbol \<open>s\<close>, whatever its outcome, the
  dictionary has the key \<open>s\<close>: with the value it had before if there was one, and with
  \<open>{price: None, color: None}\<close> otherwise. The same holds, for every symbol of the list,
  after a refresh that returns.
\<close>

theorem entry_created_never_overwritten:
  "exchange_rates (snd (show_rates_body E s st)) s =
     Some (case exchange_rates st s of None \<Rightarrow> \<lparr>price = None, color = None\<rparr> | Some v \<Rightarrow> v) \<and>
   (s \<in> set COIN_LIST \<longrightarrow> fst (show_rates E st) = Returned \<longrightarrow>
      exchange_rates (snd (show_rates E st)) s =
        Some (case exchange_rates st s of None \<Rightarrow> \<lparr>price = None, color = None\<rparr> | Some v \<Rightarrow> v))"
proof -
  have "exchange_rates (snd (show_rates_body E s st)) s =
     Some (case exchange_rates st s of None \<Rightarrow> \<lparr>price = None, color = None\<rparr> | Some v \<Rightarrow> v)"
    by (simp add: show_rates_body_eq after_fetch_def ensure_entry_def set_children_def
        split: sum.splits option.splits)
  moreover have "exchange_rates (snd (show_rates E st)) s =
        Some (case exchange_rates st s of None \<Rightarrow> \<lparr>price = None, color = None\<rparr> | Some v \<Rightarrow> v)"
    if "s \<in> set COIN_LIST" and "fst (show_rates E st) = Returned"
    using that
    by (auto simp add: show_rates_outcome show_rates_rates loop_outcome_Returned
        split: option.splits)
  ultimately show ?thesis by blast
qed

text \<open>C1 amended, witness: BTC, first click in a kernel where \<open>api\<close> is bound.\<close>

theorem entry_created_never_overwritten_witness:
  "''BTC'' \<in> set COIN_LIST \<and> fst (show_rates bound_env stale_notebook) = Returned \<and>
   exchange_rates (snd (show_rates bound_env stale_notebook)) ''BTC'' =
     Some \<lparr>price = None, color = None\<rparr> \<and>
   exchange_rates (snd (show_rates_body bound_env ''BTC'' stale_notebook)) ''BTC'' =
     Some \<lparr>price = None, color = None\<rparr>"
proof -
  have 1: "''BTC'' \<in> set COIN_LIST" by (simp add: COIN_LIST_eq)
  have 2: "fst (show_rates bound_env stale_notebook) = Returned"
    by (simp add: show_rates_outcome bound_env_returns)
  have 3: "exchange_rates stale_notebook ''BTC'' = None"
    by (simp add: stale_notebook_def fresh_notebook_def)
  from 1 2 3 entry_created_never_overwritten [of bound_env "''BTC''" stale_notebook]
  show ?thesis by simp
qed

subsection \<open>C10: an exception from the card construction\<close>

text \<open>
  Claim C10. The \<open>try\<close> statement covers the fetch only. If the iterations of the
  symbols before \<open>coin\<close> returned, and the card construction for \<open>coin\<close> raises \<open>e\<close>
  (any exception, also one of class \<open>Exception\<close>; with \<open>api\<close> unbound it is
  \<open>NameError\<close>), then \<open>show_rates\<close> raises \<open>e\<close>, the grid holds the cards of the
  symbols before \<open>coin\<close> and nothing else, and no symbol after \<open>coin\<close> is fetched.
\<close>

theorem card_exception_ends_refresh:
  assumes "COIN_LIST = before @ coin # later"
    and "fst (for_coins E before (set_children [] st)) = Returned"
    and "fst (try_get_exchange_rate E coin st1) = Inr (p, c)"
    and "price_card_widget E coin p c = Inl e"
  shows "fst (show_rates E st) = Raised e \<and>
         grid_children (snd (show_rates E st)) =
           grid_children (snd (for_coins E before (set_children [] st))) \<and>
         length (grid_children (snd (show_rates E st))) = length before \<and>
         load_calls (snd (show_rates E st)) = load_calls st @ map daily_call (before @ [coin])"
proof -
  from assms(2) have ok: "loop_outcome E before = Returned"
    by (simp add: for_coins_outcome)
  from assms(3,4) have "card_for E coin = Inl e"
    by (auto simp add: card_for_raises_iff [where st = st1])
  from loop_stops_at [OF ok this, of later] assms(1) show ?thesis
    by (simp add: show_rates_outcome show_rates_children show_rates_calls for_coins_children
        set_children_def)
qed

text \<open>
  C10, witness. In the notebook as it is the first click fetches BTC, raises
  \<open>NameError\<close> at BTC's card and leaves the grid empty. With a renderer that raises for
  USDT only, the click raises at the third symbol and leaves the cards of BTC and ETH.
\<close>

theorem card_exception_ends_refresh_witness:
  "COIN_LIST = [] @ ''BTC'' # tl COIN_LIST \<and>
   fst (for_coins notebook_env [] (set_children [] fresh_notebook)) = Returned \<and>
   fst (try_get_exchange_rate notebook_env ''BTC'' fresh_notebook) = Inr (''12.0'', ''up_color'') \<and>
   price_card_widget notebook_env ''BTC'' ''12.0'' ''up_color'' = Inl (NameError ''api'') \<and>
   fst (show_rates notebook_env fresh_notebook) = Raised (NameError ''api'') \<and>
   grid_children (snd (show_rates notebook_env fresh_notebook)) = [] \<and>
   load_calls (snd (show_rates notebook_env fresh_notebook)) = [daily_call ''BTC''] \<and>
   fst (show_rates flaky_env fresh_notebook) = Raised (OtherException ''ValueError'') \<and>
   grid_children (snd (show_rates flaky_env fresh_notebook)) =
     [HTML ''BTC 12.0 up_color'', HTML ''ETH ------- neutral_color''] \<and>
   load_calls (snd (show_rates flaky_env fresh_notebook)) =
     [daily_call ''BTC'', daily_call ''ETH'', daily_call ''USDT'']"
proof -
  have 5: "COIN_LIST = [''BTC'', ''ETH''] @ ''USDT'' # drop 3 COIN_LIST"
    by (simp add: COIN_LIST_eq)
  have 6: "fst (for_coins flaky_env [''BTC'', ''ETH''] (set_children [] fresh_notebook)) = Returned"
    by (simp only: for_coins_outcome) (simp add: eval_defs)
  have 7: "fst (try_get_exchange_rate flaky_env ''USDT'' fresh_notebook) =
             Inr (''-------'', ''neutral_color'')"
    by (simp add: try_get_exchange_rate_def get_exchange_rate_eq eval_defs)
  have 8: "price_card_widget flaky_env ''USDT'' ''-------'' ''neutral_color'' =
             Inl (OtherException ''ValueError'')"
    by (simp add: price_card_widget_def flaky_env_def flaky_price_card_def)
  have 9: "grid_children (snd (for_coins flaky_env [''BTC'', ''ETH'']
             (set_children [] fresh_notebook))) =
           [HTML ''BTC 12.0 up_color'', HTML ''ETH ------- neutral_color'']"
    by (simp only: for_coins_children) (simp add: set_children_def eval_defs)
  note mid = card_exception_ends_refresh [OF 5 6 7 8]
  have 1: "COIN_LIST = [] @ ''BTC'' # tl COIN_LIST" by (simp add: COIN_LIST_eq)
  have 2: "fst (for_coins notebook_env [] (set_children [] fresh_notebook)) = Returned" by simp
  have 3: "fst (try_get_exchange_rate notebook_env ''BTC'' fresh_notebook) =
             Inr (''12.0'', ''up_color'')"
    by (simp add: try_get_exchange_rate_def get_exchange_rate_eq eval_defs)
  have 4: "price_card_widget notebook_env ''BTC'' ''12.0'' ''up_color'' = Inl (NameError ''api'')"
    by (simp add: price_card_widget_def notebook_env_def)
  from 1 2 3 4 card_exception_ends_refresh [OF 1 2 3 4] mid 9 show ?thesis
    by (simp add: fresh_notebook_def set_children_def)
qed

subsection \<open>C2: a failing fetch in the notebook as it is\<close>

text \<open>
  Claim C2 says that a symbol whose fetch raises gets a placeholder card and that the
  symbols after it are processed. The handler does its part (lemma
  \<open>fetch_failure_contained\<close>), but the card construction names \<open>api\<close>, which the
  notebook never binds. Evaluation at the first click with the network down: BTC's fetch
  raises \<open>ConnectionError\<close>, which is caught; then \<open>NameError\<close> leaves \<open>show_rates\<close>,
  the grid is empty and only BTC has been fetched.
\<close>

theorem failed_fetch_in_notebook_as_is:
  "fst (get_exchange_rate offline_env ''BTC'' 2 (ensure_entry ''BTC'' (set_children [] fresh_notebook))) =
     Inl (OtherException ''ConnectionError'') \<and>
   fst (show_rates offline_env fresh_notebook) = Raised (NameError ''api'') \<and>
   grid_children (snd (show_rates offline_env fresh_notebook)) = [] \<and>
   load_calls (snd (show_rates offline_env fresh_notebook)) =
     [\<lparr>symbol = ''BTC'', interval = ''1440'', source = ''CCXT''\<rparr>]"
proof -
  have 1: "exchange_rate_of offline_env ''BTC'' = Inl (OtherException ''ConnectionError'')"
    by (simp add: exchange_rate_of_def offline_env_def)
  have 2: "api offline_env = None" by (simp add: offline_env_def)
  have 3: "is_Exception e" if "exchange_rate_of offline_env ''BTC'' = Inl e" for e
    using that 1 by auto
  from 1 unbound_api_raises [OF 2 3, of fresh_notebook] show ?thesis
    by (simp add: get_exchange_rate_eq fresh_notebook_def daily_call_def)
qed

subsection \<open>C8: the calls to the loader in the notebook as it is\<close>

text \<open>
  Claim C8 says that every refresh makes one call per symbol, in list order. The calls are
  made in list order, each with interval \<open>1440\<close> and source \<open>CCXT\<close>, and a refresh that
  returns has made all 48 (lemmas \<open>load_calls_in_list_order\<close> and
  \<open>completed_refresh_calls\<close>). Evaluation at the first click in the notebook as it is:
  the refresh raises \<open>NameError\<close> after the single call for BTC, of 48 symbols.
\<close>

theorem one_request_in_notebook_as_is:
  "fst (show_rates notebook_env fresh_notebook) = Raised (NameError ''api'') \<and>
   load_calls (snd (show_rates notebook_env fresh_notebook)) =
     [\<lparr>symbol = ''BTC'', interval = ''1440'', source = ''CCXT''\<rparr>] \<and>
   length COIN_LIST = 48"
proof -
  have 1: "exchange_rate_of notebook_env ''BTC'' = Inr (''12.0'', ''up_color'')"
    by (simp add: eval_defs)
  have 2: "api notebook_env = None" by (simp add: notebook_env_def)
  have 3: "is_Exception e" if "exchange_rate_of notebook_env ''BTC'' = Inl e" for e
    using that 1 by auto
  from unbound_api_raises [OF 2 3, of fresh_notebook] show ?thesis
    by (simp add: fresh_notebook_def daily_call_def length_COIN_LIST)
qed

end
